theory Spec2Isabelle
  imports Complex_Main "HOL-Library.Sublist"
begin

section \<open>Sunset-Map: geographic batching, rate-limited cache-aware fetch, statistics\<close>

text \<open>
  A shallow embedding of \<^verbatim>\<open>Avg_Timezone_optimized.py\<close>. Python floats
  (coordinates, clock readings, UTC offsets, statistics) are modelled as real numbers,
  Python ints as \<^typ>\<open>int\<close>, Python strings as \<^typ>\<open>string\<close>.
\<close>

subsection \<open>Python exceptions as values\<close>

datatype py_error = ValueError | TypeError | KeyError | StatisticsError | ZeroDivisionError

subsection \<open>TimeCodec: \<^verbatim>\<open>time_to_seconds\<close> and \<^verbatim>\<open>seconds_to_time\<close>\<close>

text \<open>
  A character is its code point (0 to 255). \<^verbatim>\<open>\d\<close> is read on the ASCII digits,
  \<^verbatim>\<open>\s\<close> on the code points below 256 that Python's \<^verbatim>\<open>re\<close> module counts as
  whitespace.
\<close>

definition is_digit :: "char \<Rightarrow> bool" where
  "is_digit c = (48 \<le> (of_char c :: nat) \<and> (of_char c :: nat) \<le> 57)"

definition digit_val :: "char \<Rightarrow> nat" where
  "digit_val c = of_char c - 48"

definition digit_char :: "nat \<Rightarrow> char" where
  "digit_char d = char_of (48 + d)"

definition is_space :: "char \<Rightarrow> bool" where
  "is_space c = (let n = (of_char c :: nat)
                 in (9 \<le> n \<and> n \<le> 13) \<or> (28 \<le> n \<and> n \<le> 32) \<or> n = 133 \<or> n = 160)"

definition lower_char :: "char \<Rightarrow> char" where
  "lower_char c = (if 65 \<le> (of_char c :: nat) \<and> (of_char c :: nat) \<le> 90
                   then char_of ((of_char c :: nat) + 32) else c)"

text \<open>
  \<^verbatim>\<open>datetime.strptime\<close> turns the format into a regular expression, matches it
  against the start of the text with a backtracking matcher, takes the first match, and
  rejects the text when the match does not reach its end. Each piece of the expression is
  modelled as the list of its possible matches in the matcher's order of preference, each
  with the text that remains; the first element of the combined list is the match the
  library finds.
  \<^item> \<^verbatim>\<open>%I\<close> is \<^verbatim>\<open>(1[0-2]|0[1-9]|[1-9])\<close>,
  \<^item> \<^verbatim>\<open>%H\<close> is \<^verbatim>\<open>(2[0-3]|[0-1]\d|\d)\<close>,
  \<^item> \<^verbatim>\<open>%M\<close> is \<^verbatim>\<open>([0-5]\d|\d)\<close>,
  \<^item> \<^verbatim>\<open>%S\<close> is \<^verbatim>\<open>(6[0-1]|[0-5]\d|\d)\<close>,
  \<^item> \<^verbatim>\<open>%p\<close> is \<^verbatim>\<open>(am|pm)\<close>, matched ignoring case (English locale),
  \<^item> a blank in the format is \<^verbatim>\<open>\s+\<close>.
\<close>

fun two_digits :: "(nat \<Rightarrow> nat \<Rightarrow> bool) \<Rightarrow> string \<Rightarrow> (nat \<times> string) list" where
  "two_digits P (a # b # rest) =
     (if is_digit a \<and> is_digit b \<and> P (digit_val a) (digit_val b)
      then [(10 * digit_val a + digit_val b, rest)] else [])"
| "two_digits P _ = []"

fun one_digit :: "(nat \<Rightarrow> bool) \<Rightarrow> string \<Rightarrow> (nat \<times> string) list" where
  "one_digit P (a # rest) = (if is_digit a \<and> P (digit_val a) then [(digit_val a, rest)] else [])"
| "one_digit P [] = []"

definition re_I :: "string \<Rightarrow> (nat \<times> string) list" where
  "re_I s = two_digits (\<lambda>a b. a = 1 \<and> b \<le> 2) s @ two_digits (\<lambda>a b. a = 0 \<and> 1 \<le> b) s
            @ one_digit (\<lambda>a. 1 \<le> a) s"

definition re_H :: "string \<Rightarrow> (nat \<times> string) list" where
  "re_H s = two_digits (\<lambda>a b. a = 2 \<and> b \<le> 3) s @ two_digits (\<lambda>a b. a \<le> 1) s
            @ one_digit (\<lambda>a. True) s"

definition re_M :: "string \<Rightarrow> (nat \<times> string) list" where
  "re_M s = two_digits (\<lambda>a b. a \<le> 5) s @ one_digit (\<lambda>a. True) s"

definition re_S :: "string \<Rightarrow> (nat \<times> string) list" where
  "re_S s = two_digits (\<lambda>a b. a = 6 \<and> b \<le> 1) s @ two_digits (\<lambda>a b. a \<le> 5) s
            @ one_digit (\<lambda>a. True) s"

fun re_lit :: "char \<Rightarrow> string \<Rightarrow> string list" where
  "re_lit c (x # rest) = (if x = c then [rest] else [])"
| "re_lit c [] = []"

definition re_spaces :: "string \<Rightarrow> string list" where
  "re_spaces s = map (\<lambda>n. drop n s) (rev [1..<Suc (length (takeWhile is_space s))])"

fun re_p :: "string \<Rightarrow> (string \<times> string) list" where
  "re_p (a # b # rest) =
     (let w = [lower_char a, lower_char b]
      in if w = ''am'' \<or> w = ''pm'' then [(w, rest)] else [])"
| "re_p _ = []"

definition match_12h :: "string \<Rightarrow> ((nat \<times> nat \<times> nat \<times> string) \<times> string) list" where
  "match_12h s =
     [((i, m, sec, p), r7).
        (i, r1) \<leftarrow> re_I s, r2 \<leftarrow> re_lit CHR '':'' r1,
        (m, r3) \<leftarrow> re_M r2, r4 \<leftarrow> re_lit CHR '':'' r3,
        (sec, r5) \<leftarrow> re_S r4, r6 \<leftarrow> re_spaces r5,
        (p, r7) \<leftarrow> re_p r6]"

definition match_24h :: "string \<Rightarrow> ((nat \<times> nat \<times> nat) \<times> string) list" where
  "match_24h s =
     [((h, m, sec), r5).
        (h, r1) \<leftarrow> re_H s, r2 \<leftarrow> re_lit CHR '':'' r1,
        (m, r3) \<leftarrow> re_M r2, r4 \<leftarrow> re_lit CHR '':'' r3,
        (sec, r5) \<leftarrow> re_S r4]"

text \<open>
  The \<^verbatim>\<open>datetime\<close> constructor checks the ranges of its fields and raises
  \<^verbatim>\<open>ValueError\<close> otherwise; \<^verbatim>\<open>%S\<close> lets 60 and 61 through to it.
\<close>

record pytime =
  hour :: nat
  minute :: nat
  second :: nat

definition datetime_new :: "nat \<Rightarrow> nat \<Rightarrow> nat \<Rightarrow> py_error + pytime" where
  "datetime_new h m s =
     (if h \<le> 23 \<and> m \<le> 59 \<and> s \<le> 59 then Inr \<lparr>hour = h, minute = m, second = s\<rparr>
      else Inl ValueError)"

text \<open>\<^verbatim>\<open>datetime.strptime(time_str, "%I:%M:%S %p")\<close> and
  \<^verbatim>\<open>datetime.strptime(time_str, "%H:%M:%S")\<close>.\<close>

definition strptime_12h :: "string \<Rightarrow> py_error + pytime" where
  "strptime_12h data_string =
     (case match_12h data_string of
        [] \<Rightarrow> Inl ValueError
      | ((i, m, sec, ampm), rest) # _ \<Rightarrow>
          if rest \<noteq> [] then Inl ValueError
          else let hour = (if ampm = ''am'' then (if i = 12 then 0 else i)
                           else if ampm = ''pm'' then (if i \<noteq> 12 then i + 12 else i)
                           else i)
               in datetime_new hour m sec)"

definition strptime_24h :: "string \<Rightarrow> py_error + pytime" where
  "strptime_24h data_string =
     (case match_24h data_string of
        [] \<Rightarrow> Inl ValueError
      | ((h, m, sec), rest) # _ \<Rightarrow>
          if rest \<noteq> [] then Inl ValueError else datetime_new h m sec)"

text \<open>
  \<^verbatim>\<open>datetime.fromisoformat\<close> is interpreter code whose accepted grammar differs
  between Python versions. Its grammar is a parameter \<open>parse_iso\<close>: the hour, minute and
  second fields read from an accepted text, \<open>None\<close> for a rejected one. The fields then
  go through the same constructor as above.
\<close>

definition endswith_Z :: "string \<Rightarrow> bool" where
  "endswith_Z s = (s \<noteq> [] \<and> last s = CHR ''Z'')"

definition fromisoformat :: "(string \<Rightarrow> (nat \<times> nat \<times> nat) option) \<Rightarrow> string \<Rightarrow> py_error + pytime" where
  "fromisoformat parse_iso s =
     (case parse_iso s of None \<Rightarrow> Inl ValueError | Some (h, m, sec) \<Rightarrow> datetime_new h m sec)"

definition seconds_of :: "pytime \<Rightarrow> int" where
  "seconds_of t = int (hour t) * 3600 + int (minute t) * 60 + int (second t)"

text \<open>
  \<^verbatim>\<open>time_to_seconds\<close>: the three attempts in the order of the source; only
  \<^verbatim>\<open>ValueError\<close> moves on to the next attempt, and the last failure is raised again.
\<close>

definition time_to_seconds :: "(string \<Rightarrow> (nat \<times> nat \<times> nat) option) \<Rightarrow> string \<Rightarrow> py_error + int" where
  "time_to_seconds parse_iso time_str =
     (case strptime_12h time_str of
        Inr time_obj \<Rightarrow> Inr (seconds_of time_obj)
      | Inl ValueError \<Rightarrow>
          (case strptime_24h time_str of
             Inr time_obj \<Rightarrow> Inr (seconds_of time_obj)
           | Inl ValueError \<Rightarrow>
               (let time_str' = (if endswith_Z time_str then butlast time_str @ ''+00:00''
                                 else time_str)
                in case fromisoformat parse_iso time_str' of
                     Inr time_obj \<Rightarrow> Inr (seconds_of time_obj)
                   | Inl e \<Rightarrow> Inl e)
           | Inl e \<Rightarrow> Inl e)
      | Inl e \<Rightarrow> Inl e)"

text \<open>
  \<^verbatim>\<open>f"{n:02d}"\<close>: the decimal digits of \<open>n\<close>, padded with zeros to width two (the
  sign counts towards the width).
\<close>

fun str_nat :: "nat \<Rightarrow> string" where
  "str_nat n = (if n < 10 then [digit_char n] else str_nat (n div 10) @ [digit_char (n mod 10)])"

declare str_nat.simps [simp del]

definition fmt_02d :: "int \<Rightarrow> string" where
  "fmt_02d i =
     (if i < 0 then CHR ''-'' # str_nat (nat (- i))
      else if i < 10 then CHR ''0'' # str_nat (nat i)
      else str_nat (nat i))"

definition seconds_to_time :: "int \<Rightarrow> string" where
  "seconds_to_time seconds =
     (let hours = (seconds div 3600) mod 24;
          minutes = (seconds mod 3600) div 60;
          secs = seconds mod 60
      in fmt_02d hours @ '':'' @ fmt_02d minutes @ '':'' @ fmt_02d secs)"

subsection \<open>Configuration\<close>

definition GRID_SIZE :: real where
  "GRID_SIZE = 1"

definition REDIS_EXPIRY :: real where
  "REDIS_EXPIRY = 86400"

definition BATCH_SIZE :: nat where
  "BATCH_SIZE = 100"

subsection \<open>GeographicBatcher: grid coordinates\<close>

text \<open>
  \<^verbatim>\<open>lat_grid = np.floor(lat / GRID_SIZE) * GRID_SIZE\<close>, likewise for the longitude.
  With \<^verbatim>\<open>GRID_SIZE = 1.0\<close> the division, the floor and the product are exact in
  binary floating point for every finite coordinate, so the real-number reading is
  the value the code computes.
\<close>

definition get_grid_coordinates :: "real \<Rightarrow> real \<Rightarrow> real \<times> real" where
  "get_grid_coordinates lat lon =
     (let lat_grid = of_int \<lfloor>lat / GRID_SIZE\<rfloor> * GRID_SIZE;
          lon_grid = of_int \<lfloor>lon / GRID_SIZE\<rfloor> * GRID_SIZE
      in (lat_grid, lon_grid))"

subsection \<open>RateLimiter\<close>

record RateLimiter =
  calls_per_second :: int
  min_interval :: real
  last_call :: real

text \<open>\<^verbatim>\<open>RateLimiter.__init__\<close>: \<^verbatim>\<open>1.0 / calls_per_second\<close> raises for zero.\<close>

definition RateLimiter_init :: "int \<Rightarrow> py_error + RateLimiter" where
  "RateLimiter_init cps =
     (if cps = 0 then Inl ZeroDivisionError
      else Inr \<lparr>calls_per_second = cps, min_interval = 1 / of_int cps, last_call = 0\<rparr>)"

text \<open>
  \<^verbatim>\<open>time.time()\<close> reads a clock that belongs to the environment; the model passes the
  clock's value along. The body of \<^verbatim>\<open>acquire\<close> runs under the limiter's lock, so the
  bodies of all callers run one after the other: the shared limiter sees a sequence of
  \<open>acquire\<close> steps. For each step the environment chooses two delays: \<open>lock_lag\<close>, the
  time that passes until the caller holds the lock and reads \<^verbatim>\<open>now\<close>, and
  \<open>wake_lag\<close>, the time by which the second reading of the clock is later than the end of
  the requested sleep (than \<^verbatim>\<open>now\<close> when no sleep is requested). On a clock that does
  not run backwards and with a sleep that lasts at least as long as requested, both
  delays are non-negative.
  The step returns the limiter and the clock at the moment the caller is granted.
\<close>

definition acquire :: "real \<times> real \<Rightarrow> RateLimiter \<times> real \<Rightarrow> RateLimiter \<times> real" where
  "acquire lags st =
     (case lags of (lock_lag, wake_lag) \<Rightarrow>
      case st of (rl, clock) \<Rightarrow>
        let now = clock + lock_lag;
            elapsed = now - last_call rl;
            woken = (if elapsed < min_interval rl then now + (min_interval rl - elapsed) else now);
            t = woken + wake_lag
        in (rl\<lparr>last_call := t\<rparr>, t))"

text \<open>The instants at which a sequence of \<open>acquire\<close> calls on one limiter is granted.\<close>

fun grants :: "(real \<times> real) list \<Rightarrow> RateLimiter \<times> real \<Rightarrow> real list" where
  "grants [] st = []"
| "grants (l # ls) st = (let st' = acquire l st in last_call (fst st') # grants ls st')"

subsection \<open>Values of the API's JSON body\<close>

datatype json =
  JNull | JBool bool | JNum real | JStr string | JList "json list" | JObj "(string \<times> json) list"

text \<open>
  A \<open>JObj\<close> is a Python dict: its list holds each key once. The three Python operations
  the source applies to the decoded body: truth value, \<^verbatim>\<open>key in value\<close> and
  \<^verbatim>\<open>value[key]\<close> with a string key.
\<close>

fun truthy :: "json \<Rightarrow> bool" where
  "truthy JNull = False"
| "truthy (JBool b) = b"
| "truthy (JNum x) = (x \<noteq> 0)"
| "truthy (JStr s) = (s \<noteq> [])"
| "truthy (JList xs) = (xs \<noteq> [])"
| "truthy (JObj kvs) = (kvs \<noteq> [])"

fun py_in :: "string \<Rightarrow> json \<Rightarrow> py_error + bool" where
  "py_in k (JObj kvs) = Inr (k \<in> set (map fst kvs))"
| "py_in k (JList xs) = Inr (JStr k \<in> set xs)"
| "py_in k (JStr s) = Inr (sublist k s)"
| "py_in k JNull = Inl TypeError"
| "py_in k (JBool b) = Inl TypeError"
| "py_in k (JNum x) = Inl TypeError"

fun py_getitem :: "json \<Rightarrow> string \<Rightarrow> py_error + json" where
  "py_getitem (JObj kvs) k = (case map_of kvs k of None \<Rightarrow> Inl KeyError | Some v \<Rightarrow> Inr v)"
| "py_getitem JNull k = Inl TypeError"
| "py_getitem (JBool b) k = Inl TypeError"
| "py_getitem (JNum x) k = Inl TypeError"
| "py_getitem (JStr s) k = Inl TypeError"
| "py_getitem (JList xs) k = Inl TypeError"

text \<open>
  Lines 161 to 166 of the source: \<open>Inr None\<close> is the "Invalid API response" return,
  \<open>Inl\<close> an exception raised on the way, \<open>Inr (Some s)\<close> the value of
  \<^verbatim>\<open>data["results"]["sunset"]\<close>.
\<close>

definition extract_sunset :: "json \<Rightarrow> py_error + json option" where
  "extract_sunset data =
     (if \<not> truthy data then Inr None
      else case py_in ''results'' data of
        Inl e \<Rightarrow> Inl e
      | Inr False \<Rightarrow> Inr None
      | Inr True \<Rightarrow>
          (case py_getitem data ''results'' of
             Inl e \<Rightarrow> Inl e
           | Inr res \<Rightarrow>
               (case py_in ''sunset'' res of
                  Inl e \<Rightarrow> Inl e
                | Inr False \<Rightarrow> Inr None
                | Inr True \<Rightarrow>
                    (case py_getitem res ''sunset'' of
                       Inl e \<Rightarrow> Inl e
                     | Inr sunset_time \<Rightarrow> Inr (Some sunset_time)))))"

subsection \<open>GridCache\<close>

text \<open>
  \<^verbatim>\<open>f"{x:.1f}"\<close>: the value rounded to one decimal, ties to even, with a minus sign for
  a negative value.
\<close>

definition round_half_even :: "real \<Rightarrow> int" where
  "round_half_even x =
     (let f = \<lfloor>x\<rfloor>; d = x - of_int f
      in if d < 1 / 2 then f else if 1 / 2 < d then f + 1 else if even f then f else f + 1)"

definition fmt_1f :: "real \<Rightarrow> string" where
  "fmt_1f x =
     (let n = nat (round_half_even (\<bar>x\<bar> * 10))
      in (if x < 0 then ''-'' else []) @ str_nat (n div 10) @ ''.'' @ [digit_char (n mod 10)])"

definition get_cache_key :: "real \<Rightarrow> real \<Rightarrow> string" where
  "get_cache_key lat_grid lon_grid = ''sunset:grid:'' @ fmt_1f lat_grid @ '':'' @ fmt_1f lon_grid"

text \<open>
  The Redis store: a key holds the pickled dict (here the dict itself) and the instant at
  which \<^verbatim>\<open>setex\<close> lets it expire. The store is taken to be reachable: its calls return.
\<close>

type_synonym cache_data = "(string \<times> json) list"

type_synonym redis_store = "string \<Rightarrow> (cache_data \<times> real) option"

definition get_cached_result :: "redis_store \<Rightarrow> real \<Rightarrow> real \<Rightarrow> real \<Rightarrow> cache_data option" where
  "get_cached_result store now lat_grid lon_grid =
     (case store (get_cache_key lat_grid lon_grid) of
        None \<Rightarrow> None
      | Some (data, expires) \<Rightarrow> if now < expires then Some data else None)"

definition set_cached_result ::
    "redis_store \<Rightarrow> real \<Rightarrow> real \<Rightarrow> real \<Rightarrow> cache_data \<Rightarrow> redis_store" where
  "set_cached_result store now lat_grid lon_grid data =
     store(get_cache_key lat_grid lon_grid \<mapsto> (data, now + REDIS_EXPIRY))"

subsection \<open>Locations, results and the fetch of one grid cell\<close>

record Location =
  loc_zip_code :: string
  loc_lat :: real
  loc_lon :: real
  loc_timezone_offset :: real

record FetchResult =
  zip_code :: string
  sunset_time :: json
  timezone_offset :: real

text \<open>
  What the environment decides for one call of \<^verbatim>\<open>fetch_grid_sunset\<close>: the two delays
  of the limiter, the time the request takes, and the outcome of the request.
  \<open>Raised\<close> is an I/O error or the 10 second timeout of \<^verbatim>\<open>session.get\<close>;
  \<open>Reply status body\<close> is a response, whose \<open>body\<close> is \<open>None\<close> when
  \<^verbatim>\<open>response.json()\<close> raises.
\<close>

datatype http_reply = Raised | Reply int "json option"

record fetch_env =
  lock_lag :: real
  wake_lag :: real
  reply_lag :: real
  reply :: http_reply

text \<open>
  The state the fetches share: the Redis store, the limiter, the clock, the progress bar's
  count, and the requests sent so far (the coordinates of each \<^verbatim>\<open>GET\<close>).
\<close>

record world =
  redis :: redis_store
  rate_limiter :: RateLimiter
  clock :: real
  pbar :: nat
  requests :: "(real \<times> real) list"

text \<open>The loop that builds one result per location of the cell.\<close>

definition results_for :: "Location list \<Rightarrow> json \<Rightarrow> FetchResult list" where
  "results_for locations s =
     map (\<lambda>loc. \<lparr>zip_code = loc_zip_code loc, sunset_time = s,
                  timezone_offset = loc_timezone_offset loc\<rparr>) locations"

definition pbar_update :: "nat \<Rightarrow> world \<Rightarrow> world" where
  "pbar_update n w = w\<lparr>pbar := pbar w + n\<rparr>"

text \<open>
  \<^verbatim>\<open>fetch_grid_sunset\<close>. Every exception inside the source's \<^verbatim>\<open>try\<close> ends in the
  handler, which updates the progress bar and returns the empty list; so does a cached
  dict without the key \<^verbatim>\<open>'sunset_time'\<close>.
\<close>

definition fetch_grid_sunset ::
    "fetch_env \<Rightarrow> real \<Rightarrow> real \<Rightarrow> Location list \<Rightarrow> world \<Rightarrow> FetchResult list \<times> world" where
  "fetch_grid_sunset env grid_lat grid_lon locations w =
     (case get_cached_result (redis w) (clock w) grid_lat grid_lon of
        Some (kv # kvs) \<Rightarrow>
          (case map_of (kv # kvs) ''sunset_time'' of
             None \<Rightarrow> ([], pbar_update (length locations) w)
           | Some cached_sunset \<Rightarrow>
               (results_for locations cached_sunset, pbar_update (length locations) w))
      | _ \<Rightarrow>
          (case acquire (lock_lag env, wake_lag env) (rate_limiter w, clock w) of (rl, granted) \<Rightarrow>
           let center_lat = grid_lat + GRID_SIZE / 2;
               center_lon = grid_lon + GRID_SIZE / 2;
               w1 = w\<lparr>rate_limiter := rl, clock := granted + reply_lag env,
                       requests := requests w @ [(center_lat, center_lon)]\<rparr>;
               failed = ([], pbar_update (length locations) w1)
           in case reply env of
                Raised \<Rightarrow> failed
              | Reply status body \<Rightarrow>
                  if status \<noteq> 200 then failed
                  else (case body of
                          None \<Rightarrow> failed
                        | Some data \<Rightarrow>
                            (case extract_sunset data of
                               Inl e \<Rightarrow> failed
                             | Inr None \<Rightarrow> failed
                             | Inr (Some sunset) \<Rightarrow>
                                 (results_for locations sunset,
                                  pbar_update (length locations)
                                    (w1\<lparr>redis := set_cached_result (redis w1) (clock w1)
                                                     grid_lat grid_lon
                                                     [(''sunset_time'', sunset)]\<rparr>))))))"

text \<open>
  \<^verbatim>\<open>process_all_zips\<close>, the part that produces the results: the grid items are cut
  into batches of \<open>BATCH_SIZE\<close>, each batch is handed to \<^verbatim>\<open>asyncio.gather\<close>, and
  the lists it returns are appended in the order of the tasks. A task is a cell with its
  locations and with what the environment decides for its fetch. The model runs the
  fetches of a batch one after the other, in the order of the tasks.
\<close>

type_synonym task = "fetch_env \<times> (real \<times> real) \<times> Location list"

fun gather :: "task list \<Rightarrow> world \<Rightarrow> FetchResult list list \<times> world" where
  "gather [] w = ([], w)"
| "gather ((env, (grid_lat, grid_lon), locations) # tasks) w =
     (case fetch_grid_sunset env grid_lat grid_lon locations w of (grid_results, w') \<Rightarrow>
      case gather tasks w' of (rest, w'') \<Rightarrow> (grid_results # rest, w''))"

function batches_of :: "'a list \<Rightarrow> 'a list list" where
  "batches_of xs = (if xs = [] then [] else take BATCH_SIZE xs # batches_of (drop BATCH_SIZE xs))"
  by pat_completeness auto
termination
  by (relation "measure length") (auto simp: BATCH_SIZE_def)

declare batches_of.simps [simp del]

fun process_batches :: "task list list \<Rightarrow> world \<Rightarrow> FetchResult list \<times> world" where
  "process_batches [] w = ([], w)"
| "process_batches (batch # batches) w =
     (case gather batch w of (batch_results, w') \<Rightarrow>
      case process_batches batches w' of (results, w'') \<Rightarrow> (concat batch_results @ results, w''))"

definition process_grids :: "task list \<Rightarrow> world \<Rightarrow> FetchResult list \<times> world" where
  "process_grids grid_items w = process_batches (batches_of grid_items) w"

text \<open>
  The ways a request fails: an I/O error or timeout, a status other than 200, a body that
  cannot be decoded, and a body from which \<^verbatim>\<open>data["results"]["sunset"]\<close> cannot be
  taken.
\<close>

fun api_failure :: "http_reply \<Rightarrow> bool" where
  "api_failure Raised = True"
| "api_failure (Reply status body) =
     (status \<noteq> 200 \<or>
      (case body of
         None \<Rightarrow> True
       | Some data \<Rightarrow> (case extract_sunset data of Inr (Some s) \<Rightarrow> False | _ \<Rightarrow> True)))"

subsection \<open>GeographicBatcher: grouping ZIP codes into grid cells\<close>




text \<open>
  \<^verbatim>\<open>d[k].append(v)\<close> on a \<^verbatim>\<open>defaultdict(list)\<close>: the dict keeps its keys in the order
  of their first insertion, each list in the order of the appends.
\<close>

fun defaultdict_append :: "('k \<times> 'v list) list \<Rightarrow> 'k \<Rightarrow> 'v \<Rightarrow> ('k \<times> 'v list) list" where
  "defaultdict_append [] k v = [(k, [v])]"
| "defaultdict_append ((k', vs) # rest) k v =
     (if k' = k then (k', vs @ [v]) # rest else (k', vs) # defaultdict_append rest k v)"











subsection \<open>StatsEngine: \<^verbatim>\<open>calculate_statistics\<close>\<close>

text \<open>
  \<^verbatim>\<open>time_to_seconds\<close> on the value stored in a result: \<^verbatim>\<open>strptime\<close> raises
  \<^verbatim>\<open>TypeError\<close> for a value that is not a string.
\<close>

definition time_to_seconds_value ::
    "(string \<Rightarrow> (nat \<times> nat \<times> nat) option) \<Rightarrow> json \<Rightarrow> py_error + int" where
  "time_to_seconds_value parse_iso v =
     (case v of JStr time_str \<Rightarrow> time_to_seconds parse_iso time_str | _ \<Rightarrow> Inl TypeError)"

text \<open>The list comprehension over the results; the first failure is raised.\<close>

fun seconds_of_results ::
    "(string \<Rightarrow> (nat \<times> nat \<times> nat) option) \<Rightarrow> FetchResult list \<Rightarrow> py_error + int list" where
  "seconds_of_results parse_iso [] = Inr []"
| "seconds_of_results parse_iso (r # rs) =
     (case time_to_seconds_value parse_iso (sunset_time r) of
        Inl e \<Rightarrow> Inl e
      | Inr s \<Rightarrow> (case seconds_of_results parse_iso rs of Inl e \<Rightarrow> Inl e | Inr ss \<Rightarrow> Inr (s # ss)))"

text \<open>
  \<^verbatim>\<open>statistics.mean\<close>, \<^verbatim>\<open>median\<close> and \<^verbatim>\<open>stdev\<close> on a list of ints, in exact
  arithmetic. \<^verbatim>\<open>mean\<close> and \<^verbatim>\<open>median\<close> raise on an empty list, \<^verbatim>\<open>stdev\<close> on
  fewer than two values. A standard deviation is the square root of a sample variance;
  it is kept as the number under the root, so that it stays computable: \<open>Sqrt v\<close> is
  the root of \<open>v\<close>, and dividing the root by \<open>d > 0\<close> divides \<open>v\<close> by the square of
  \<open>d\<close>.
\<close>

datatype surd = Sqrt real

fun surd_div :: "surd \<Rightarrow> real \<Rightarrow> surd" where
  "surd_div (Sqrt v) d = Sqrt (v / d\<^sup>2)"

fun surd_value :: "surd \<Rightarrow> real" where
  "surd_value (Sqrt v) = sqrt v"

definition mean :: "int list \<Rightarrow> py_error + real" where
  "mean xs = (if xs = [] then Inl StatisticsError
              else Inr (real_of_int (sum_list xs) / real (length xs)))"

definition median :: "int list \<Rightarrow> py_error + real" where
  "median xs =
     (let data = sort xs; n = length data
      in if n = 0 then Inl StatisticsError
         else if n mod 2 = 1 then Inr (real_of_int (data ! (n div 2)))
         else Inr (real_of_int (data ! (n div 2 - 1) + data ! (n div 2)) / 2))"

definition stdev :: "int list \<Rightarrow> py_error + surd" where
  "stdev xs =
     (let n = length xs
      in if n < 2 then Inl StatisticsError
         else let c = real_of_int (sum_list xs) / real n
              in Inr (Sqrt ((\<Sum>x\<leftarrow>xs. (real_of_int x - c)\<^sup>2) / real (n - 1))))"

text \<open>\<^verbatim>\<open>np.percentile(a, q)\<close> with its default linear interpolation, on a non-empty list.\<close>

definition percentile :: "int list \<Rightarrow> real \<Rightarrow> real" where
  "percentile xs q =
     (let a = sort xs; n = length a;
          pos = q / 100 * real (n - 1);
          lo = nat \<lfloor>pos\<rfloor>;
          hi = min (lo + 1) (n - 1)
      in real_of_int (a ! lo) + (pos - real lo) * real_of_int (a ! hi - a ! lo))"

text \<open>\<^verbatim>\<open>int(x)\<close> of a float truncates towards zero.\<close>

definition py_int :: "real \<Rightarrow> int" where
  "py_int x = (if 0 \<le> x then \<lfloor>x\<rfloor> else \<lceil>x\<rceil>)"

text \<open>\<^verbatim>\<open>min\<close>, \<^verbatim>\<open>max\<close> and \<^verbatim>\<open>list.index\<close>, used on a non-empty list and on one of
  its elements.\<close>

fun py_min :: "int list \<Rightarrow> int" where
  "py_min [] = 0"
| "py_min (x # xs) = fold min xs x"

fun py_max :: "int list \<Rightarrow> int" where
  "py_max [] = 0"
| "py_max (x # xs) = fold max xs x"

fun index_of :: "int list \<Rightarrow> int \<Rightarrow> nat" where
  "index_of [] v = 0"
| "index_of (x # xs) v = (if x = v then 0 else Suc (index_of xs v))"

text \<open>
  The summary. A float that the source formats (\<^verbatim>\<open>f"{x:.2f}"\<close>) is kept as the number
  formatted; the text \<^verbatim>\<open>"N/A"\<close> of a group's standard deviation is \<open>None\<close>. The keys
  of the hour and timezone tables are the numbers the source turns into strings.
\<close>

record summary_statistics_t =
  average_sunset :: string
  median_sunset :: string
  standard_deviation_minutes :: surd
  total_locations :: nat

record range_analysis_t =
  earliest_sunset :: FetchResult
  latest_sunset :: FetchResult
  time_range_minutes :: real

record percentile_distribution_t =
  percentile_10th :: string
  percentile_25th :: string
  percentile_median :: string
  percentile_75th :: string
  percentile_90th :: string

record hour_entry =
  hour_count :: nat
  hour_percentage :: real

record timezone_entry =
  tz_count :: nat
  tz_average :: string
  tz_std_dev_minutes :: "surd option"

record statistics =
  summary_statistics :: summary_statistics_t
  range_analysis :: range_analysis_t
  percentile_distribution :: percentile_distribution_t
  hour_distribution :: "(int \<times> hour_entry) list"
  timezone_analysis :: "(real \<times> timezone_entry) list"

text \<open>
  The entry of one offset group. A group holds at least one time, so \<^verbatim>\<open>mean(times)\<close>
  does not raise there; \<^verbatim>\<open>stdev(times)\<close> is called only under the guard
  \<^verbatim>\<open>len(times) > 1\<close>.
\<close>

definition timezone_stats_of :: "int list \<Rightarrow> timezone_entry" where
  "timezone_stats_of group_times =
     \<lparr>tz_count = length group_times,
      tz_average = seconds_to_time (py_int (real_of_int (sum_list group_times) / real (length group_times))),
      tz_std_dev_minutes =
        (if length group_times > 1
         then (case stdev group_times of Inr sd \<Rightarrow> Some (surd_div sd 60) | Inl e \<Rightarrow> None)
         else None)\<rparr>"

text \<open>
  \<^verbatim>\<open>calculate_statistics\<close>: the empty dict for no results (\<open>Inr None\<close>); otherwise the
  group_times are parsed, then \<^verbatim>\<open>mean\<close>, \<^verbatim>\<open>median\<close> and \<^verbatim>\<open>stdev\<close> are called on the
  whole list in this order, and the summary is built. The second pass over the results
  (the timezone groups) parses the same texts again, with the same values.
\<close>

definition calculate_statistics ::
    "(string \<Rightarrow> (nat \<times> nat \<times> nat) option) \<Rightarrow> FetchResult list \<Rightarrow> py_error + statistics option" where
  "calculate_statistics parse_iso results =
     (if results = [] then Inr None
      else case seconds_of_results parse_iso results of
        Inl e \<Rightarrow> Inl e
      | Inr seconds_list \<Rightarrow>
         (case mean seconds_list of
            Inl e \<Rightarrow> Inl e
          | Inr avg_seconds \<Rightarrow>
         (case median seconds_list of
            Inl e \<Rightarrow> Inl e
          | Inr median_seconds \<Rightarrow>
         (case stdev seconds_list of
            Inl e \<Rightarrow> Inl e
          | Inr std_seconds \<Rightarrow>
              let earliest_idx = index_of seconds_list (py_min seconds_list);
                  latest_idx = index_of seconds_list (py_max seconds_list);
                  earliest_data = results ! earliest_idx;
                  latest_data = results ! latest_idx;
                  time_range_seconds = py_max seconds_list - py_min seconds_list;
                  hours = map (\<lambda>seconds. seconds div 3600) seconds_list;
                  timezone_groups =
                    fold (\<lambda>(r, s) groups. defaultdict_append groups (timezone_offset r) s)
                      (zip results seconds_list) []
              in Inr (Some
                   \<lparr>summary_statistics =
                      \<lparr>average_sunset = seconds_to_time (py_int avg_seconds),
                       median_sunset = seconds_to_time (py_int median_seconds),
                       standard_deviation_minutes = surd_div std_seconds 60,
                       total_locations = length results\<rparr>,
                    range_analysis =
                      \<lparr>earliest_sunset = earliest_data,
                       latest_sunset = latest_data,
                       time_range_minutes = real_of_int time_range_seconds / 60\<rparr>,
                    percentile_distribution =
                      \<lparr>percentile_10th = seconds_to_time (py_int (percentile seconds_list 10)),
                       percentile_25th = seconds_to_time (py_int (percentile seconds_list 25)),
                       percentile_median = seconds_to_time (py_int (percentile seconds_list 50)),
                       percentile_75th = seconds_to_time (py_int (percentile seconds_list 75)),
                       percentile_90th = seconds_to_time (py_int (percentile seconds_list 90))\<rparr>,
                    hour_distribution =
                      map (\<lambda>h. (h, \<lparr>hour_count = count_list hours h,
                                      hour_percentage =
                                        real (count_list hours h) / real (length results) * 100\<rparr>))
                        (sort (remdups hours)),
                    timezone_analysis =
                      map (\<lambda>(offset, group_times). (offset, timezone_stats_of group_times)) timezone_groups\<rparr>)))))"

text \<open>The three results of the specification's StatsEngine scenario.\<close>

definition scenario :: "FetchResult list" where
  "scenario =
     [\<lparr>zip_code = ''A'', sunset_time = JStr ''7:00:00 PM'', timezone_offset = -4\<rparr>,
      \<lparr>zip_code = ''B'', sunset_time = JStr ''7:30:00 PM'', timezone_offset = -4\<rparr>,
      \<lparr>zip_code = ''C'', sunset_time = JStr ''8:00:00 PM'', timezone_offset = -5\<rparr>]"

subsection \<open>Sample data\<close>

text \<open>
  A limiter of 10 calls per second, a world with an empty cache at clock 1000, a cell with
  five locations, two response bodies, and the world after one successful fetch of the
  cell.
\<close>

definition limiter10 :: RateLimiter where
  "limiter10 = \<lparr>calls_per_second = 10, min_interval = 1 / 10, last_call = 0\<rparr>"

definition world0 :: world where
  "world0 = \<lparr>redis = (\<lambda>k. None), rate_limiter = limiter10, clock = 1000, pbar = 0,
             requests = []\<rparr>"

definition five_locations :: "Location list" where
  "five_locations =
     map (\<lambda>z. \<lparr>loc_zip_code = z, loc_lat = 35.2, loc_lon = -80.8, loc_timezone_offset = -4\<rparr>)
       [''28202'', ''28203'', ''28204'', ''28205'', ''28206'']"

definition body_ok :: json where
  "body_ok = JObj [(''results'', JObj [(''sunset'', JStr ''7:03:48 PM'')]), (''status'', JStr ''OK'')]"

definition body_no_sunset :: json where
  "body_no_sunset = JObj [(''results'', JObj [(''sunrise'', JStr ''6:01:02 AM'')])]"

definition env_with :: "http_reply \<Rightarrow> fetch_env" where
  "env_with r = \<lparr>lock_lag = 0, wake_lag = 0, reply_lag = 1 / 2, reply = r\<rparr>"


text \<open>A grammar for \<^verbatim>\<open>fromisoformat\<close> that accepts one ISO-8601 text.\<close>

definition iso_sample :: "string \<Rightarrow> (nat \<times> nat \<times> nat) option" where
  "iso_sample s = (if s = ''2023-05-01T19:30:00+00:00'' then Some (19, 30, 0) else None)"


section \<open>Theorems\<close>

subsection \<open>TimeCodec\<close>

lemma digit_char_is_digit: "d < 10 \<Longrightarrow> is_digit (digit_char d)"
  by (simp add: is_digit_def digit_char_def)

lemma digit_val_digit_char: "d < 10 \<Longrightarrow> digit_val (digit_char d) = d"
  by (simp add: digit_val_def digit_char_def)

lemma digit_char_not_space: "d < 10 \<Longrightarrow> \<not> is_space (digit_char d)"
  by (simp add: is_space_def digit_char_def Let_def)

lemma colon_not_space: "\<not> is_space CHR '':''"
  by (simp add: is_space_def)

lemma str_nat_small: "n < 10 \<Longrightarrow> str_nat n = [digit_char n]"
  by (simp add: str_nat.simps)

lemma str_nat_two: "10 \<le> n \<Longrightarrow> n < 100 \<Longrightarrow> str_nat n = [digit_char (n div 10), digit_char (n mod 10)]"
  by (subst str_nat.simps) (simp add: str_nat_small)

lemma digit_char_0: "digit_char 0 = CHR ''0''"
  by code_simp

lemma fmt_02d_two:
  assumes "0 \<le> i" "i < 100"
  shows "fmt_02d i = [digit_char (nat i div 10), digit_char (nat i mod 10)]"
proof (cases "i < 10")
  case True
  with assms show ?thesis by (simp add: fmt_02d_def str_nat_small digit_char_0)
next
  case False
  with assms show ?thesis by (simp add: fmt_02d_def str_nat_two)
qed

lemma seconds_to_time_digits:
  assumes "0 \<le> s" "s \<le> 86399"
  shows "seconds_to_time s =
     (let h = nat (s div 3600); m = nat ((s mod 3600) div 60); c = nat (s mod 60)
      in [digit_char (h div 10), digit_char (h mod 10), CHR '':'',
          digit_char (m div 10), digit_char (m mod 10), CHR '':'',
          digit_char (c div 10), digit_char (c mod 10)])"
proof -
  have h0: "0 \<le> s div 3600" using assms by (simp add: pos_imp_zdiv_nonneg_iff)
  have h1: "s div 3600 < 24" using assms by linarith
  have hm: "(s div 3600) mod 24 = s div 3600" using h0 h1 by simp
  have m0: "0 \<le> (s mod 3600) div 60" by (simp add: pos_imp_zdiv_nonneg_iff)
  have "s mod 3600 < 3600" by simp
  then have m1: "(s mod 3600) div 60 < 60" by linarith
  have c: "0 \<le> s mod 60" "s mod 60 < 60" by simp_all
  have "fmt_02d ((s div 3600) mod 24) = [digit_char (nat (s div 3600) div 10), digit_char (nat (s div 3600) mod 10)]"
    using h0 h1 by (simp only: hm) (simp add: fmt_02d_two)
  moreover have "fmt_02d ((s mod 3600) div 60) = [digit_char (nat ((s mod 3600) div 60) div 10), digit_char (nat ((s mod 3600) div 60) mod 10)]"
    using m0 m1 by (simp add: fmt_02d_two)
  moreover have "fmt_02d (s mod 60) = [digit_char (nat (s mod 60) div 10), digit_char (nat (s mod 60) mod 10)]"
    using c by (simp add: fmt_02d_two)
  ultimately show ?thesis
    by (simp add: seconds_to_time_def Let_def)
qed


lemma two_digits_rest: "(x, r) \<in> set (two_digits P s) \<Longrightarrow> set r \<subseteq> set s"
  by (induction P s rule: two_digits.induct) (auto split: if_splits)

lemma one_digit_rest: "(x, r) \<in> set (one_digit P s) \<Longrightarrow> set r \<subseteq> set s"
  by (induction P s rule: one_digit.induct) (auto split: if_splits)

lemma re_lit_rest: "r \<in> set (re_lit c s) \<Longrightarrow> set r \<subseteq> set s"
  by (induction c s rule: re_lit.induct) (auto split: if_splits)

lemma re_I_rest: "(x, r) \<in> set (re_I s) \<Longrightarrow> set r \<subseteq> set s"
  by (auto simp: re_I_def dest: two_digits_rest one_digit_rest)

lemma re_M_rest: "(x, r) \<in> set (re_M s) \<Longrightarrow> set r \<subseteq> set s"
  by (auto simp: re_M_def dest: two_digits_rest one_digit_rest)

lemma re_S_rest: "(x, r) \<in> set (re_S s) \<Longrightarrow> set r \<subseteq> set s"
  by (auto simp: re_S_def dest: two_digits_rest one_digit_rest)

lemma re_spaces_empty: "\<forall>c \<in> set s. \<not> is_space c \<Longrightarrow> re_spaces s = []"
  by (cases s) (simp_all add: re_spaces_def)

lemma match_12h_needs_space:
  assumes "\<forall>c \<in> set s. \<not> is_space c"
  shows "match_12h s = []"
proof -
  have "re_spaces r5 = []"
    if "(i, r1) \<in> set (re_I s)" "r2 \<in> set (re_lit CHR '':'' r1)" "(m, r3) \<in> set (re_M r2)"
       "r4 \<in> set (re_lit CHR '':'' r3)" "(sec, r5) \<in> set (re_S r4)" for i r1 r2 m r3 r4 sec r5
  proof -
    have "set r5 \<subseteq> set s"
      using that re_I_rest re_lit_rest re_M_rest re_S_rest by (meson subset_trans)
    with assms show ?thesis by (intro re_spaces_empty) blast
  qed
  then show ?thesis
    by (auto simp: match_12h_def)
qed

lemma re_H_digits:
  assumes "h < 24"
  shows "\<exists>t. re_H (digit_char (h div 10) # digit_char (h mod 10) # r) = (h, r) # t"
proof -
  have d: "h div 10 < 10" "h mod 10 < 10" using assms by simp_all
  have v: "10 * (h div 10) + h mod 10 = h" by simp
  show ?thesis
  proof (cases "h div 10 = 2")
    case True
    then have "h mod 10 \<le> 3" using assms v by arith
    with True d v show ?thesis
      by (simp add: re_H_def digit_char_is_digit digit_val_digit_char)
  next
    case False
    then have "h div 10 \<le> 1" using assms v by arith
    with False d v show ?thesis
      by (simp add: re_H_def digit_char_is_digit digit_val_digit_char)
  qed
qed

lemma re_M_digits:
  assumes "m < 60"
  shows "\<exists>t. re_M (digit_char (m div 10) # digit_char (m mod 10) # r) = (m, r) # t"
proof -
  have d: "m div 10 < 10" "m mod 10 < 10" "m div 10 \<le> 5" using assms by simp_all
  have v: "10 * (m div 10) + m mod 10 = m" by simp
  from d v show ?thesis
    by (simp add: re_M_def digit_char_is_digit digit_val_digit_char)
qed

lemma re_S_digits:
  assumes "c < 60"
  shows "\<exists>t. re_S (digit_char (c div 10) # digit_char (c mod 10) # r) = (c, r) # t"
proof -
  have d: "c div 10 < 10" "c mod 10 < 10" "c div 10 \<le> 5" using assms by simp_all
  have v: "10 * (c div 10) + c mod 10 = c" by simp
  from d v show ?thesis
    by (simp add: re_S_def digit_char_is_digit digit_val_digit_char)
qed

lemma match_24h_digits:
  assumes "h < 24" "m < 60" "c < 60"
  shows "\<exists>t. match_24h [digit_char (h div 10), digit_char (h mod 10), CHR '':'',
                          digit_char (m div 10), digit_char (m mod 10), CHR '':'',
                          digit_char (c div 10), digit_char (c mod 10)] = ((h, m, c), []) # t"
proof -
  obtain t1 where 1: "re_H [digit_char (h div 10), digit_char (h mod 10), CHR '':'',
                          digit_char (m div 10), digit_char (m mod 10), CHR '':'',
                          digit_char (c div 10), digit_char (c mod 10)] =
       (h, [CHR '':'', digit_char (m div 10), digit_char (m mod 10), CHR '':'',
                          digit_char (c div 10), digit_char (c mod 10)]) # t1"
    using re_H_digits [OF assms(1)] by blast
  obtain t2 where 2: "re_M [digit_char (m div 10), digit_char (m mod 10), CHR '':'',
                          digit_char (c div 10), digit_char (c mod 10)] =
       (m, [CHR '':'', digit_char (c div 10), digit_char (c mod 10)]) # t2"
    using re_M_digits [OF assms(2)] by blast
  obtain t3 where 3: "re_S [digit_char (c div 10), digit_char (c mod 10)] = (c, []) # t3"
    using re_S_digits [OF assms(3)] by blast
  show ?thesis
    by (simp add: match_24h_def 1 2 3)
qed


lemma datetime_new_range:
  "datetime_new h m c = Inr t \<Longrightarrow> 0 \<le> seconds_of t \<and> seconds_of t \<le> 86399"
  by (auto simp: datetime_new_def seconds_of_def split: if_splits)

lemma strptime_12h_range:
  "strptime_12h x = Inr t \<Longrightarrow> 0 \<le> seconds_of t \<and> seconds_of t \<le> 86399"
  unfolding strptime_12h_def Let_def
  by (auto split: list.splits if_splits dest: datetime_new_range)

lemma strptime_24h_range:
  "strptime_24h x = Inr t \<Longrightarrow> 0 \<le> seconds_of t \<and> seconds_of t \<le> 86399"
  unfolding strptime_24h_def
  by (auto split: list.splits if_splits dest: datetime_new_range)

lemma fromisoformat_range:
  "fromisoformat parse_iso x = Inr t \<Longrightarrow> 0 \<le> seconds_of t \<and> seconds_of t \<le> 86399"
  unfolding fromisoformat_def
  by (auto split: option.splits dest: datetime_new_range)

lemma datetime_new_error: "datetime_new h m c = Inl e \<Longrightarrow> e = ValueError"
  by (auto simp: datetime_new_def split: if_splits)

lemma strptime_12h_error: "strptime_12h x = Inl e \<Longrightarrow> e = ValueError"
  unfolding strptime_12h_def Let_def
  by (auto split: list.splits if_splits dest: datetime_new_error)

lemma strptime_24h_error: "strptime_24h x = Inl e \<Longrightarrow> e = ValueError"
  unfolding strptime_24h_def
  by (auto split: list.splits if_splits dest: datetime_new_error)

text \<open>
  C10: whenever \<^verbatim>\<open>time_to_seconds\<close> returns a value instead of raising, whichever
  of its three formats accepted the text (12-hour with meridiem, 24-hour, ISO-8601), the
  value is an integer between 0 and 86399: a valid number of seconds since midnight.
\<close>

theorem time_to_seconds_range:
  assumes "time_to_seconds parse_iso time_str = Inr v"
  shows "0 \<le> v \<and> v \<le> 86399"
proof (cases "strptime_12h time_str")
  case (Inr t)
  with assms have "v = seconds_of t" by (simp add: time_to_seconds_def)
  with Inr show ?thesis using strptime_12h_range by blast
next
  case (Inl e)
  then have a: "strptime_12h time_str = Inl ValueError"
    using strptime_12h_error by blast
  show ?thesis
  proof (cases "strptime_24h time_str")
    case (Inr t)
    with assms a have "v = seconds_of t"
      by (simp add: time_to_seconds_def)
    with Inr show ?thesis using strptime_24h_range by blast
  next
    case (Inl e')
    then have b: "strptime_24h time_str = Inl ValueError"
      using strptime_24h_error by blast
    define x where "x = (if endswith_Z time_str then butlast time_str @ ''+00:00'' else time_str)"
    from assms a b obtain t where "fromisoformat parse_iso x = Inr t" "v = seconds_of t"
      by (auto simp: time_to_seconds_def x_def Let_def split: sum.splits)
    then show ?thesis using fromisoformat_range by blast
  qed
qed

lemma eval_12h_example: "time_to_seconds iso_sample ''7:30:00 PM'' = Inr 70200"
  by code_simp

lemma eval_24h_example: "time_to_seconds iso_sample ''19:30:00'' = Inr 70200"
  by code_simp

lemma eval_iso_example: "time_to_seconds iso_sample ''2023-05-01T19:30:00Z'' = Inr 70200"
  by code_simp

theorem time_to_seconds_range_witness:
  "time_to_seconds iso_sample ''7:30:00 PM'' = Inr 70200
   \<and> time_to_seconds iso_sample ''19:30:00'' = Inr 70200
   \<and> time_to_seconds iso_sample ''2023-05-01T19:30:00Z'' = Inr 70200
   \<and> (0::int) \<le> 70200 \<and> (70200::int) \<le> 86399"
  using time_to_seconds_range [OF eval_12h_example] time_to_seconds_range [OF eval_24h_example]
    time_to_seconds_range [OF eval_iso_example]
  by (simp add: eval_12h_example eval_24h_example eval_iso_example)

text \<open>
  C4: for every integer \<open>s\<close> from 0 to 86399,
  \<^verbatim>\<open>time_to_seconds(seconds_to_time(s)) == s\<close>: the \<^verbatim>\<open>HH:MM:SS\<close> text that
  \<^verbatim>\<open>seconds_to_time\<close> produces is parsed back to the same number of seconds.
\<close>

theorem time_codec_round_trip:
  assumes "0 \<le> s" "s \<le> 86399"
  shows "time_to_seconds parse_iso (seconds_to_time s) = Inr s"
proof -
  define h where "h = nat (s div 3600)"
  define m where "m = nat ((s mod 3600) div 60)"
  define c where "c = nat (s mod 60)"
  define tx where "tx = [digit_char (h div 10), digit_char (h mod 10), CHR '':'',
          digit_char (m div 10), digit_char (m mod 10), CHR '':'',
          digit_char (c div 10), digit_char (c mod 10)]"
  have tx: "seconds_to_time s = tx"
    using seconds_to_time_digits [OF assms] by (simp add: tx_def h_def m_def c_def Let_def)
  have h0: "0 \<le> s div 3600" using assms by (simp add: pos_imp_zdiv_nonneg_iff)
  have "s div 3600 < 24" using assms by linarith
  then have h: "h < 24" using h0 by (simp add: h_def)
  have m0: "0 \<le> (s mod 3600) div 60" by (simp add: pos_imp_zdiv_nonneg_iff)
  have "s mod 3600 < 3600" by simp
  then have "(s mod 3600) div 60 < 60" by linarith
  then have m: "m < 60" using m0 by (simp add: m_def)
  have c: "c < 60" by (simp add: c_def)
  have "\<forall>x \<in> set tx. \<not> is_space x"
    using h m c by (simp add: tx_def digit_char_not_space colon_not_space)
  then have p12: "strptime_12h tx = Inl ValueError"
    by (simp add: strptime_12h_def match_12h_needs_space)
  obtain t where "match_24h tx = ((h, m, c), []) # t"
    using match_24h_digits [OF h m c] unfolding tx_def by blast
  then have p24: "strptime_24h tx = Inr \<lparr>hour = h, minute = m, second = c\<rparr>"
    using h m c by (simp add: strptime_24h_def datetime_new_def)
  have "int h * 3600 + int m * 60 + int c = s"
  proof -
    have "int h = s div 3600" using h0 by (simp add: h_def)
    moreover have "int m = (s mod 3600) div 60" using m0 by (simp add: m_def)
    moreover have "int c = s mod 60" by (simp add: c_def)
    moreover have "s mod 60 = (s mod 3600) mod 60"
      by (simp add: mod_mod_cancel)
    moreover have "s = (s div 3600) * 3600 + s mod 3600"
      by simp
    moreover have "s mod 3600 = ((s mod 3600) div 60) * 60 + (s mod 3600) mod 60"
      by simp
    ultimately show ?thesis
      by linarith
  qed
  then show ?thesis
    by (simp add: tx time_to_seconds_def p12 p24 seconds_of_def)
qed

theorem time_codec_round_trip_witness:
  "(0::int) \<le> 68628 \<and> (68628::int) \<le> 86399
   \<and> time_to_seconds (\<lambda>_. None) (seconds_to_time 68628) = Inr 68628"
  using time_codec_round_trip [of 68628 "\<lambda>_. None"] by simp

subsection \<open>Grid cells\<close>

text \<open>
  C6: for every latitude and longitude, the grid cell computed by
  \<^verbatim>\<open>_get_grid_coordinates\<close> is \<open>(floor(lat/step)*step, floor(lon/step)*step)\<close> and
  satisfies \<open>cellLat \<le> lat < cellLat + step\<close> and \<open>cellLon \<le> lon < cellLon + step\<close>.
  The function is a pure function of its two arguments.
\<close>

theorem grid_cell_contains_point:
  "get_grid_coordinates lat lon =
     (of_int \<lfloor>lat / GRID_SIZE\<rfloor> * GRID_SIZE, of_int \<lfloor>lon / GRID_SIZE\<rfloor> * GRID_SIZE)
   \<and> fst (get_grid_coordinates lat lon) \<le> lat
   \<and> lat < fst (get_grid_coordinates lat lon) + GRID_SIZE
   \<and> snd (get_grid_coordinates lat lon) \<le> lon
   \<and> lon < snd (get_grid_coordinates lat lon) + GRID_SIZE"
  by (simp add: get_grid_coordinates_def GRID_SIZE_def)

subsection \<open>RateLimiter\<close>

lemma acquire_spacing:
  assumes "0 \<le> b" and "acquire (a, b) (rl, clk) = (rl', t)"
  shows "last_call rl + min_interval rl \<le> t \<and> last_call rl' = t
         \<and> min_interval rl' = min_interval rl \<and> calls_per_second rl' = calls_per_second rl"
  using assms by (auto simp: acquire_def Let_def split: if_splits)

lemma grants_length: "length (grants lags st) = length lags"
  by (induction lags arbitrary: st) (simp_all add: Let_def)

lemma grants_step:
  assumes "\<forall>(a, b) \<in> set lags. 0 \<le> b"
  shows "(lags \<noteq> [] \<longrightarrow> last_call rl + min_interval rl \<le> hd (grants lags (rl, clk)))
       \<and> (\<forall>i. Suc i < length lags \<longrightarrow>
              grants lags (rl, clk) ! i + min_interval rl \<le> grants lags (rl, clk) ! Suc i)"
  using assms
proof (induction lags arbitrary: rl clk)
  case Nil
  then show ?case by simp
next
  case (Cons l ls)
  obtain a b where l: "l = (a, b)" by (cases l)
  obtain rl' t where st: "acquire (a, b) (rl, clk) = (rl', t)" by (cases "acquire (a, b) (rl, clk)")
  from Cons.prems l have b: "0 \<le> b" by simp
  note sp = acquire_spacing [OF b st]
  from Cons.prems have rest: "\<forall>(a, b) \<in> set ls. 0 \<le> b" by simp
  note ih = Cons.IH [OF rest, of rl' t]
  have g: "grants (l # ls) (rl, clk) = t # grants ls (rl', t)"
    using st sp by (simp add: l Let_def)
  have first: "last_call rl + min_interval rl \<le> hd (grants (l # ls) (rl, clk))"
    unfolding g using sp by simp
  have later: "grants (l # ls) (rl, clk) ! i + min_interval rl \<le> grants (l # ls) (rl, clk) ! Suc i"
    if "Suc i < length (l # ls)" for i
  proof (cases i)
    case 0
    with that have ne: "ls \<noteq> []" by auto
    then have "grants ls (rl', t) \<noteq> []"
      using grants_length [of ls "(rl', t)"] by auto
    then have "grants ls (rl', t) ! 0 = hd (grants ls (rl', t))"
      by (simp add: hd_conv_nth)
    with ih ne sp 0 show ?thesis unfolding g by simp
  next
    case (Suc j)
    with that have "Suc j < length ls" by simp
    with ih sp Suc show ?thesis unfolding g by simp
  qed
  from first later show ?case by blast
qed

lemma chain_span:
  fixes gs :: "real list"
  assumes "\<forall>i. Suc i < length gs \<longrightarrow> gs ! i + d \<le> gs ! Suc i"
  shows "i \<le> j \<Longrightarrow> j < length gs \<Longrightarrow> gs ! i + real (j - i) * d \<le> gs ! j"
proof (induction j)
  case 0
  then show ?case by simp
next
  case (Suc j)
  show ?case
  proof (cases "i = Suc j")
    case True
    then show ?thesis by simp
  next
    case False
    with Suc.prems have ij: "i \<le> j" and j: "j < length gs" by simp_all
    from Suc.IH [OF ij j] have "gs ! i + real (j - i) * d \<le> gs ! j" .
    moreover from assms Suc.prems have "gs ! j + d \<le> gs ! Suc j" by blast
    moreover from ij have "real (Suc j - i) = real (j - i) + 1" by (simp add: Suc_diff_le)
    ultimately show ?thesis by (simp add: algebra_simps)
  qed
qed

text \<open>
  C3: \<open>N\<close> sequential \<^verbatim>\<open>acquire()\<close> calls on a limiter configured with
  \<open>cps\<close> calls per second, by whichever callers share it, are granted at instants
  \<open>g\<^sub>0, \<dots>, g\<^sub>N\<^sub>-\<^sub>1\<close> with \<open>g\<^sub>i + (j - i) / cps \<le> g\<^sub>j\<close> for \<open>i \<le> j\<close>: the whole sequence
  spans at least \<open>(N - 1) / cps\<close> seconds of the clock (\<open>i = 0\<close>, \<open>j = N - 1\<close>) and each
  grant is at least \<open>1 / cps\<close> seconds after the one before (\<open>j = i + 1\<close>). The
  assumption on the environment is that no sleep ends early on the clock that
  \<^verbatim>\<open>time.time()\<close> reads (every \<open>wake_lag\<close> is non-negative).
\<close>

theorem rate_limiter_spacing:
  assumes init: "RateLimiter_init cps = Inr rl0"
      and lags: "\<forall>(a, b) \<in> set lags. 0 \<le> b"
      and ij: "i \<le> j" "j < length lags"
  shows "grants lags (rl0, t0) ! i + real (j - i) * (1 / real_of_int cps) \<le> grants lags (rl0, t0) ! j"
proof -
  from init have mi: "min_interval rl0 = 1 / real_of_int cps"
    by (auto simp: RateLimiter_init_def split: if_splits)
  have "\<forall>k. Suc k < length (grants lags (rl0, t0)) \<longrightarrow>
          grants lags (rl0, t0) ! k + 1 / real_of_int cps \<le> grants lags (rl0, t0) ! Suc k"
    using grants_step [OF lags, of rl0 t0] by (simp add: mi grants_length)
  from chain_span [OF this ij(1)] ij(2) show ?thesis
    by (simp add: grants_length)
qed

lemma limiter_10: "RateLimiter_init 10 = Inr \<lparr>calls_per_second = 10, min_interval = 1 / 10, last_call = 0\<rparr>"
  by (simp add: RateLimiter_init_def)

lemma grants_example:
  "grants [(0, 0), (1 / 100, 0), (1 / 2, 1 / 1000)]
     (\<lparr>calls_per_second = 10, min_interval = 1 / 10, last_call = 0\<rparr>, 1000)
   = [1000, 10001 / 10, 1000601 / 1000]"
  by (simp add: acquire_def Let_def)

theorem rate_limiter_spacing_witness:
  "RateLimiter_init 10 = Inr \<lparr>calls_per_second = 10, min_interval = 1 / 10, last_call = 0\<rparr>
   \<and> grants [(0, 0), (1 / 100, 0), (1 / 2, 1 / 1000)]
        (\<lparr>calls_per_second = 10, min_interval = 1 / 10, last_call = 0\<rparr>, 1000)
      = [1000, 10001 / 10, 1000601 / 1000]
   \<and> (1000::real) + 2 * (1 / 10) \<le> 1000601 / 1000"
proof -
  have "grants [(0, 0), (1 / 100, 0), (1 / 2, 1 / 1000)]
          (\<lparr>calls_per_second = 10, min_interval = 1 / 10, last_call = 0\<rparr>, 1000) ! 0
        + real (2 - 0) * (1 / real_of_int 10)
        \<le> grants [(0, 0), (1 / 100, 0), (1 / 2, 1 / 1000)]
          (\<lparr>calls_per_second = 10, min_interval = 1 / 10, last_call = 0\<rparr>, 1000) ! 2"
    by (rule rate_limiter_spacing [OF limiter_10]) simp_all
  then show ?thesis
    unfolding grants_example by (simp add: limiter_10)
qed

subsection \<open>Fetching a grid cell\<close>

lemma results_for_length: "length (results_for locations s) = length locations"
  by (simp add: results_for_def)

lemma results_for_zip: "map zip_code (results_for locations s) = map loc_zip_code locations"
  by (simp add: results_for_def comp_def)

lemma results_for_sunset: "r \<in> set (results_for locations s) \<Longrightarrow> sunset_time r = s"
  by (auto simp: results_for_def)

text \<open>The bodies from which a sunset value is taken: \<^verbatim>\<open>{"results": {"sunset": s, ...}, ...}\<close>.\<close>

lemma py_in_obj: "map_of kvs k = Some v \<Longrightarrow> py_in k (JObj kvs) = Inr True"
  by (auto dest: map_of_SomeD intro: rev_image_eqI)

lemma extract_sunset_iff:
  "extract_sunset data = Inr (Some s) \<longleftrightarrow>
     (\<exists>kvs res. data = JObj kvs \<and> map_of kvs ''results'' = Some (JObj res)
                \<and> map_of res ''sunset'' = Some s)"
proof
  assume "\<exists>kvs res. data = JObj kvs \<and> map_of kvs ''results'' = Some (JObj res)
                \<and> map_of res ''sunset'' = Some s"
  then obtain kvs res where d: "data = JObj kvs" and r: "map_of kvs ''results'' = Some (JObj res)"
    and s: "map_of res ''sunset'' = Some s" by blast
  from r have "kvs \<noteq> []" by auto
  then show "extract_sunset data = Inr (Some s)"
    using py_in_obj [OF r] py_in_obj [OF s] r s
    by (simp add: extract_sunset_def d del: py_in.simps)
next
  assume e: "extract_sunset data = Inr (Some s)"
  then obtain res where g: "py_getitem data ''results'' = Inr res"
    and h: "py_getitem res ''sunset'' = Inr s"
    by (auto simp: extract_sunset_def split: if_splits sum.splits bool.splits)
  from g obtain kvs where d: "data = JObj kvs" and r: "map_of kvs ''results'' = Some res"
    by (cases data) (auto split: option.splits)
  from h obtain rs where "res = JObj rs" and "map_of rs ''sunset'' = Some s"
    by (cases res) (auto split: option.splits)
  with d r show "\<exists>kvs res. data = JObj kvs \<and> map_of kvs ''results'' = Some (JObj res)
                \<and> map_of res ''sunset'' = Some s" by blast
qed

lemma fetch_cache_hit:
  assumes "get_cached_result (redis w) (clock w) grid_lat grid_lon = Some d"
      and "map_of d ''sunset_time'' = Some s"
  shows "fetch_grid_sunset env grid_lat grid_lon locations w
         = (results_for locations s, pbar_update (length locations) w)"
proof -
  from assms(2) obtain kv kvs where "d = kv # kvs" by (cases d) auto
  with assms show ?thesis by (simp add: fetch_grid_sunset_def)
qed

lemma fetch_api_success:
  assumes "get_cached_result (redis w) (clock w) grid_lat grid_lon = None
           \<or> get_cached_result (redis w) (clock w) grid_lat grid_lon = Some []"
      and "reply env = Reply 200 (Some data)"
      and "extract_sunset data = Inr (Some s)"
  shows "fst (fetch_grid_sunset env grid_lat grid_lon locations w) = results_for locations s"
  using assms by (auto simp: fetch_grid_sunset_def Let_def split: prod.splits)

text \<open>
  C1: for a grid cell that is served from the cache (an entry that carries a sunset text)
  or by a successful API call (status 200 and a body with \<^verbatim>\<open>results.sunset\<close>), the
  fetch returns exactly one result per location of the cell, in the order of the
  locations, and every one of them carries the same \<^verbatim>\<open>sunset_time\<close>.
\<close>

theorem same_cell_same_sunset:
  assumes "(\<exists>d. get_cached_result (redis w) (clock w) grid_lat grid_lon = Some d
                \<and> map_of d ''sunset_time'' = Some s)
           \<or> ((get_cached_result (redis w) (clock w) grid_lat grid_lon = None
                \<or> get_cached_result (redis w) (clock w) grid_lat grid_lon = Some [])
               \<and> reply env = Reply 200 (Some (JObj kvs))
               \<and> map_of kvs ''results'' = Some (JObj res)
               \<and> map_of res ''sunset'' = Some s)"
  shows "length (fst (fetch_grid_sunset env grid_lat grid_lon locations w)) = length locations
       \<and> map zip_code (fst (fetch_grid_sunset env grid_lat grid_lon locations w))
           = map loc_zip_code locations
       \<and> (\<forall>r \<in> set (fst (fetch_grid_sunset env grid_lat grid_lon locations w)).
             sunset_time r = s)"
proof -
  have "fst (fetch_grid_sunset env grid_lat grid_lon locations w) = results_for locations s"
  proof -
    from assms consider
      (hit) d where "get_cached_result (redis w) (clock w) grid_lat grid_lon = Some d"
        "map_of d ''sunset_time'' = Some s"
    | (api) "get_cached_result (redis w) (clock w) grid_lat grid_lon = None
           \<or> get_cached_result (redis w) (clock w) grid_lat grid_lon = Some []"
        "reply env = Reply 200 (Some (JObj kvs))" "map_of kvs ''results'' = Some (JObj res)"
        "map_of res ''sunset'' = Some s"
      by blast
    then show ?thesis
    proof cases
      case hit
      then show ?thesis by (simp add: fetch_cache_hit)
    next
      case api
      have "extract_sunset (JObj kvs) = Inr (Some s)"
        using api(3,4) by (subst extract_sunset_iff) blast
      with api(1,2) show ?thesis by (rule fetch_api_success)
    qed
  qed
  then show ?thesis
    by (simp add: results_for_length results_for_zip results_for_sunset)
qed


lemma fetch_api_failure:
  assumes "get_cached_result (redis w) (clock w) grid_lat grid_lon = None
           \<or> get_cached_result (redis w) (clock w) grid_lat grid_lon = Some []"
      and "api_failure (reply env)"
  shows "fetch_grid_sunset env grid_lat grid_lon locations w =
           ([], pbar_update (length locations)
                  (w\<lparr>rate_limiter := fst (acquire (lock_lag env, wake_lag env) (rate_limiter w, clock w)),
                     clock := snd (acquire (lock_lag env, wake_lag env) (rate_limiter w, clock w))
                              + reply_lag env,
                     requests := requests w @ [(grid_lat + GRID_SIZE / 2, grid_lon + GRID_SIZE / 2)]\<rparr>))"
proof (cases "reply env")
  case Raised
  with assms(1) show ?thesis
    by (auto simp: fetch_grid_sunset_def Let_def split: prod.splits)
next
  case (Reply status body)
  with assms show ?thesis
    by (auto simp: fetch_grid_sunset_def Let_def split: prod.splits option.splits sum.splits)
qed

text \<open>
  C7: when the cell is not served from the cache and its request fails, in any of the ways
  of \<open>api_failure\<close> (an I/O or timeout error, a status other than 200, a body without the
  expected \<^verbatim>\<open>results\<close>/\<^verbatim>\<open>sunset\<close> field), the fetch returns no result for the cell
  and ends in a state that does not depend on the way the request failed; nothing is
  written to the cache, exactly one request has been sent (no retry), and the batch goes on
  with the remaining cells.
\<close>

theorem failed_fetch_drops_cell:
  assumes "get_cached_result (redis w) (clock w) grid_lat grid_lon = None
           \<or> get_cached_result (redis w) (clock w) grid_lat grid_lon = Some []"
      and "api_failure (reply env)"
  shows "fetch_grid_sunset env grid_lat grid_lon locations w =
           ([], pbar_update (length locations)
                  (w\<lparr>rate_limiter := fst (acquire (lock_lag env, wake_lag env) (rate_limiter w, clock w)),
                     clock := snd (acquire (lock_lag env, wake_lag env) (rate_limiter w, clock w))
                              + reply_lag env,
                     requests := requests w @ [(grid_lat + GRID_SIZE / 2, grid_lon + GRID_SIZE / 2)]\<rparr>))
       \<and> redis (snd (fetch_grid_sunset env grid_lat grid_lon locations w)) = redis w
       \<and> requests (snd (fetch_grid_sunset env grid_lat grid_lon locations w))
           = requests w @ [(grid_lat + GRID_SIZE / 2, grid_lon + GRID_SIZE / 2)]
       \<and> gather ((env, (grid_lat, grid_lon), locations) # tasks) w
           = (case gather tasks (snd (fetch_grid_sunset env grid_lat grid_lon locations w)) of
                (rest, w'') \<Rightarrow> ([] # rest, w''))"
proof -
  note f = fetch_api_failure [OF assms, of locations]
  have "gather ((env, (grid_lat, grid_lon), locations) # tasks) w
          = (case gather tasks (snd (fetch_grid_sunset env grid_lat grid_lon locations w)) of
               (rest, w'') \<Rightarrow> ([] # rest, w''))"
    by (simp add: f split: prod.splits)
  moreover have "redis (snd (fetch_grid_sunset env grid_lat grid_lon locations w)) = redis w"
    by (simp add: f pbar_update_def)
  moreover have "requests (snd (fetch_grid_sunset env grid_lat grid_lon locations w))
           = requests w @ [(grid_lat + GRID_SIZE / 2, grid_lon + GRID_SIZE / 2)]"
    by (simp add: f pbar_update_def)
  ultimately show ?thesis
    using f by (simp only: simp_thms)
qed


lemma body_ok_sunset: "extract_sunset body_ok = Inr (Some (JStr ''7:03:48 PM''))"
  by (simp add: extract_sunset_def body_ok_def)

lemma body_no_sunset_invalid: "extract_sunset body_no_sunset = Inr None"
  by (simp add: extract_sunset_def body_no_sunset_def)

lemma world0_miss: "get_cached_result (redis world0) (clock world0) 35 (-81) = None"
  by (simp add: get_cached_result_def world0_def)

theorem same_cell_same_sunset_witness:
  "get_cached_result (redis world0) (clock world0) 35 (-81) = None
   \<and> reply (env_with (Reply 200 (Some body_ok))) = Reply 200 (Some body_ok)
   \<and> length (fst (fetch_grid_sunset (env_with (Reply 200 (Some body_ok))) 35 (-81)
                    five_locations world0)) = 5
   \<and> map zip_code (fst (fetch_grid_sunset (env_with (Reply 200 (Some body_ok))) 35 (-81)
                    five_locations world0))
       = [''28202'', ''28203'', ''28204'', ''28205'', ''28206'']
   \<and> map sunset_time (fst (fetch_grid_sunset (env_with (Reply 200 (Some body_ok))) 35 (-81)
                    five_locations world0))
       = replicate 5 (JStr ''7:03:48 PM'')"
proof -
  let ?rs = "fst (fetch_grid_sunset (env_with (Reply 200 (Some body_ok))) 35 (-81)
                    five_locations world0)"
  have r: "reply (env_with (Reply 200 (Some body_ok))) = Reply 200 (Some body_ok)"
    by (simp add: env_with_def)
  have c: "length ?rs = length five_locations \<and> map zip_code ?rs = map loc_zip_code five_locations
        \<and> (\<forall>r \<in> set ?rs. sunset_time r = JStr ''7:03:48 PM'')"
    by (rule same_cell_same_sunset
          [where kvs = "[(''results'', JObj [(''sunset'', JStr ''7:03:48 PM'')]), (''status'', JStr ''OK'')]"
             and res = "[(''sunset'', JStr ''7:03:48 PM'')]"])
       (simp add: world0_miss env_with_def body_ok_def)
  have n: "length five_locations = 5"
    by (simp add: five_locations_def)
  have z: "map loc_zip_code five_locations = [''28202'', ''28203'', ''28204'', ''28205'', ''28206'']"
    by (simp add: five_locations_def)
  from c have "map sunset_time ?rs = map (\<lambda>r. JStr ''7:03:48 PM'') ?rs"
    by (intro map_cong) simp_all
  then have s: "map sunset_time ?rs = replicate 5 (JStr ''7:03:48 PM'')"
    using c n by (simp only: map_replicate_const)
  from c n z s world0_miss r show ?thesis
    by (simp only: simp_thms)
qed



theorem failed_fetch_drops_cell_witness:
  "get_cached_result (redis world0) (clock world0) 35 (-81) = None
   \<and> api_failure (reply (env_with Raised))
   \<and> api_failure (reply (env_with (Reply 503 None)))
   \<and> api_failure (reply (env_with (Reply 200 (Some body_no_sunset))))
   \<and> fst (fetch_grid_sunset (env_with Raised) 35 (-81) five_locations world0) = []
   \<and> fst (fetch_grid_sunset (env_with (Reply 503 None)) 35 (-81) five_locations world0) = []
   \<and> fst (fetch_grid_sunset (env_with (Reply 200 (Some body_no_sunset))) 35 (-81)
            five_locations world0) = []
   \<and> redis (snd (fetch_grid_sunset (env_with Raised) 35 (-81) five_locations world0))
       = redis world0
   \<and> fst (gather [(env_with Raised, (35, -81), five_locations),
                   (env_with (Reply 200 (Some body_ok)), (36, -81), five_locations)] world0)
       = [[], results_for five_locations (JStr ''7:03:48 PM'')]"
proof -
  have a: "api_failure (reply (env_with Raised))"
    "api_failure (reply (env_with (Reply 503 None)))"
    "api_failure (reply (env_with (Reply 200 (Some body_no_sunset))))"
    by (simp_all add: env_with_def body_no_sunset_invalid)
  note m = disjI1 [OF world0_miss]
  note f1 = failed_fetch_drops_cell [OF m a(1), of five_locations
              "[(env_with (Reply 200 (Some body_ok)), (36, -81), five_locations)]"]
  note f2 = failed_fetch_drops_cell [OF m a(2), of five_locations "[]"]
  note f3 = failed_fetch_drops_cell [OF m a(3), of five_locations "[]"]
  let ?w = "snd (fetch_grid_sunset (env_with Raised) 35 (-81) five_locations world0)"
  from f1 have e1: "fst (fetch_grid_sunset (env_with Raised) 35 (-81) five_locations world0) = []"
    by simp
  from f2 have e2: "fst (fetch_grid_sunset (env_with (Reply 503 None)) 35 (-81)
                         five_locations world0) = []"
    by simp
  from f3 have e3: "fst (fetch_grid_sunset (env_with (Reply 200 (Some body_no_sunset))) 35 (-81)
                         five_locations world0) = []"
    by simp
  from f1 have r1: "redis ?w = redis world0"
    by blast
  from f1 have g1: "gather [(env_with Raised, (35, -81), five_locations),
                   (env_with (Reply 200 (Some body_ok)), (36, -81), five_locations)] world0
       = (case gather [(env_with (Reply 200 (Some body_ok)), (36, -81), five_locations)] ?w of
            (rest, w'') \<Rightarrow> ([] # rest, w''))"
    by blast
  have miss2: "get_cached_result (redis ?w) (clock ?w) 36 (-81) = None"
    unfolding r1 by (simp add: get_cached_result_def world0_def)
  have "fst (fetch_grid_sunset (env_with (Reply 200 (Some body_ok))) 36 (-81) five_locations ?w)
          = results_for five_locations (JStr ''7:03:48 PM'')"
    by (rule fetch_api_success [OF disjI1 [OF miss2], where data = body_ok])
       (simp_all add: env_with_def body_ok_sunset)
  then have g: "fst (gather [(env_with Raised, (35, -81), five_locations),
                   (env_with (Reply 200 (Some body_ok)), (36, -81), five_locations)] world0)
       = [[], results_for five_locations (JStr ''7:03:48 PM'')]"
    unfolding g1 by (simp add: split_def)
  from e1 e2 e3 r1 a world0_miss g show ?thesis
    by (simp only: simp_thms)
qed

subsection \<open>Batching\<close>












subsection \<open>Statistics\<close>

lemma parse_7pm: "strptime_12h ''7:00:00 PM'' = Inr \<lparr>hour = 19, minute = 0, second = 0\<rparr>"
  by code_simp

lemma parse_730pm: "strptime_12h ''7:30:00 PM'' = Inr \<lparr>hour = 19, minute = 30, second = 0\<rparr>"
  by code_simp

lemma parse_8pm: "strptime_12h ''8:00:00 PM'' = Inr \<lparr>hour = 20, minute = 0, second = 0\<rparr>"
  by code_simp

lemma scenario_seconds: "seconds_of_results parse_iso scenario = Inr [68400, 70200, 72000]"
  by (simp add: scenario_def time_to_seconds_value_def time_to_seconds_def
        parse_7pm parse_730pm parse_8pm seconds_of_def)

lemma text_1900: "seconds_to_time 68400 = ''19:00:00''"
  by code_simp

lemma text_1930: "seconds_to_time 70200 = ''19:30:00''"
  by code_simp

lemma text_1915: "seconds_to_time 69300 = ''19:15:00''"
  by code_simp

lemma text_2000: "seconds_to_time 72000 = ''20:00:00''"
  by code_simp

lemma scenario_mean: "mean [68400, 70200, 72000] = Inr 70200"
  by (simp add: mean_def)

lemma scenario_median: "median [68400, 70200, 72000] = Inr 70200"
  by (simp add: median_def)

lemma scenario_stdev: "stdev [68400, 70200, 72000] = Inr (Sqrt 3240000)"
  by (simp add: stdev_def)

lemma scenario_groups:
  "fold (\<lambda>(r, s) groups. defaultdict_append groups (timezone_offset r) s)
     (zip scenario [68400, 70200, 72000]) [] = [(-4, [68400, 70200]), (-5, [72000::int])]"
  by (simp add: scenario_def)

lemma group_4: "timezone_stats_of [68400, 70200] =
   \<lparr>tz_count = 2, tz_average = ''19:15:00'', tz_std_dev_minutes = Some (Sqrt 450)\<rparr>"
  by (simp add: timezone_stats_of_def stdev_def py_int_def text_1915)

lemma group_5: "timezone_stats_of [72000] =
   \<lparr>tz_count = 1, tz_average = ''20:00:00'', tz_std_dev_minutes = None\<rparr>"
  by (simp add: timezone_stats_of_def py_int_def text_2000)

lemma scenario_nonempty: "scenario \<noteq> []" "length scenario = 3"
  by (simp_all add: scenario_def)

lemma scenario_nth:
  "scenario ! 0 = \<lparr>zip_code = ''A'', sunset_time = JStr ''7:00:00 PM'', timezone_offset = -4\<rparr>"
  "scenario ! Suc (Suc 0) = \<lparr>zip_code = ''C'', sunset_time = JStr ''8:00:00 PM'', timezone_offset = -5\<rparr>"
  by (simp_all add: scenario_def)

lemma scenario_extremes:
  "py_min [68400, 70200, 72000] = 68400" "py_max [68400, 70200, 72000] = 72000"
  by simp_all

text \<open>
  C5, with the values the code computes: on the three results A ("7:00:00 PM", offset -4),
  B ("7:30:00 PM", -4) and C ("8:00:00 PM", -5), the sunset seconds are 68400, 70200 and
  72000; their mean is 70200 ("19:30:00") and their median 70200 ("19:30:00"); the
  earliest result is A (68400 seconds, 19:00:00), the latest is C (72000 seconds,
  20:00:00); the time range is 60 minutes; offset group -4 has count 2 and offset group -5
  has count 1 and the standard deviation "N/A".
\<close>

theorem stats_scenario:
  "\<exists>st. seconds_of_results parse_iso scenario = Inr [68400, 70200, 72000]
     \<and> mean [68400, 70200, 72000] = Inr 70200
     \<and> median [68400, 70200, 72000] = Inr 70200
     \<and> calculate_statistics parse_iso scenario = Inr (Some st)
     \<and> average_sunset (summary_statistics st) = ''19:30:00''
     \<and> median_sunset (summary_statistics st) = ''19:30:00''
     \<and> earliest_sunset (range_analysis st)
         = \<lparr>zip_code = ''A'', sunset_time = JStr ''7:00:00 PM'', timezone_offset = -4\<rparr>
     \<and> latest_sunset (range_analysis st)
         = \<lparr>zip_code = ''C'', sunset_time = JStr ''8:00:00 PM'', timezone_offset = -5\<rparr>
     \<and> seconds_to_time (py_min [68400, 70200, 72000]) = ''19:00:00''
     \<and> seconds_to_time (py_max [68400, 70200, 72000]) = ''20:00:00''
     \<and> time_range_minutes (range_analysis st) = 60
     \<and> map (\<lambda>(offset, e). (offset, tz_count e, tz_std_dev_minutes e)) (timezone_analysis st)
         = [(-4, 2, Some (Sqrt 450)), (-5, 1, None)]"
  by (simp add: calculate_statistics_def scenario_seconds scenario_mean scenario_median
        scenario_stdev scenario_groups group_4 group_5 py_int_def text_1930 text_1900 text_2000
        Let_def
        scenario_nonempty scenario_extremes scenario_nth del: py_min.simps py_max.simps)

text \<open>
  On the three results neither the mean nor the median is 69600 seconds, and the summary does
  not show "19:20:00" for either.
\<close>

theorem stats_scenario_counterexample:
  "seconds_of_results (\<lambda>_. None) scenario = Inr [68400, 70200, 72000]
   \<and> mean [68400, 70200, 72000] \<noteq> Inr 69600
   \<and> median [68400, 70200, 72000] \<noteq> Inr 69600
   \<and> \<not> (\<exists>st. calculate_statistics (\<lambda>_. None) scenario = Inr (Some st)
             \<and> average_sunset (summary_statistics st) = ''19:20:00'')
   \<and> \<not> (\<exists>st. calculate_statistics (\<lambda>_. None) scenario = Inr (Some st)
             \<and> median_sunset (summary_statistics st) = ''19:20:00'')"
  by (simp add: calculate_statistics_def scenario_seconds scenario_mean scenario_median
        scenario_stdev py_int_def text_1930 Let_def scenario_nonempty)

text \<open>
  C8 fails on a run with exactly one sample: \<^verbatim>\<open>stdev\<close> is called on the whole list
  without the guard that the offset groups have, and \<^verbatim>\<open>calculate_statistics\<close> raises
  \<^verbatim>\<open>StatisticsError\<close> instead of returning a summary with "N/A".
\<close>

theorem single_sample_raises:
  assumes "time_to_seconds_value parse_iso (sunset_time r) = Inr v"
  shows "calculate_statistics parse_iso [r] = Inl StatisticsError"
  using assms
  by (simp add: calculate_statistics_def mean_def median_def stdev_def)

theorem single_sample_raises_witness:
  "time_to_seconds_value (\<lambda>_. None) (JStr ''7:00:00 PM'') = Inr 68400
   \<and> calculate_statistics (\<lambda>_. None)
         [\<lparr>zip_code = ''A'', sunset_time = JStr ''7:00:00 PM'', timezone_offset = -4\<rparr>]
       = Inl StatisticsError"
proof -
  have p: "time_to_seconds_value (\<lambda>_. None) (JStr ''7:00:00 PM'') = Inr 68400"
    by (simp add: time_to_seconds_value_def time_to_seconds_def parse_7pm seconds_of_def)
  have "time_to_seconds_value (\<lambda>_. None)
          (sunset_time \<lparr>zip_code = ''A'', sunset_time = JStr ''7:00:00 PM'', timezone_offset = -4\<rparr>)
        = Inr 68400"
    using p by simp
  from single_sample_raises [OF this] p show ?thesis by simp
qed

text \<open>An offset group with one sample does report "N/A".\<close>

lemma single_group_na: "tz_std_dev_minutes (timezone_stats_of [x]) = None"
  by (simp add: timezone_stats_of_def)

end
